theory Spec2Isabelle
  imports Complex_Main "HOL-Library.Char_ord" "HOL-Library.List_Lexorder" "HOL-Library.Multiset"
begin

section \<open>Data model\<close>

text \<open>
  A row of the \<^verbatim>\<open>transactions\<close> table (server.ts, lines 9-18), which is also the object the
  client receives for it. The type \<open>'n\<close> of the amounts stands for JavaScript's numbers (IEEE
  doubles, which SQLite's REAL stores as they are): it is a parameter, and so are its \<open>0\<close>,
  \<open>+\<close>, \<open>-\<close> and \<open><\<close> where the client uses them. No law of arithmetic is assumed of them, so
  what is proved holds of the rounding, non-associative addition that the code performs.
  \<open>type\<close> is a free string: the schema only comments that it is 'expense' or 'revenue'.
  \<open>note\<close> is the one nullable column. The fields \<open>id\<close>, \<open>type\<close> and \<open>note\<close> of the source are
  \<open>tid\<close>, \<open>ttype\<close> and \<open>tnote\<close> here.
\<close>

record 'n transaction =
  tid :: int
  ttype :: string
  amount :: 'n
  category :: string
  date :: string
  tnote :: "string option"

text \<open>
  \<^verbatim>\<open>CATEGORIES\<close> of the types module: the categories that the form of App.tsx offers in its
  select, per type. Neither the server nor the aggregation checks a category against them.
\<close>

definition CATEGORIES_expense :: "string list" where
  "CATEGORIES_expense =
     [''Food'', ''Transport'', ''Rent'', ''Utilities'', ''Entertainment'', ''Shopping'',
      ''Health'', ''Education'', ''Other'']"

definition CATEGORIES_revenue :: "string list" where
  "CATEGORIES_revenue = [''Salary'', ''Freelance'', ''Investment'', ''Gift'', ''Other'']"

text \<open>
  A property of a JSON request body: missing (JavaScript reads \<^verbatim>\<open>undefined\<close>), \<^verbatim>\<open>null\<close>, or a
  value. Values carry the types the client's \<^verbatim>\<open>Transaction\<close> interface declares.
\<close>

datatype 'a field = Absent | Null | Val 'a

record 'n body =
  b_id :: "int field"
  b_type :: "string field"
  b_amount :: "'n field"
  b_category :: "string field"
  b_date :: "string field"
  b_note :: "string field"

text \<open>
  The store: the rows in rowid order, and the counter that \<^verbatim>\<open>AUTOINCREMENT\<close> keeps of the
  largest rowid it has handed out (it survives deletes).
\<close>

record 'n table =
  rows :: "'n transaction list"
  sqlite_sequence :: int

section \<open>Sorting with a comparator\<close>

text \<open>
  Stable insertion sort; \<open>le a b\<close> says that the comparator does not put \<open>a\<close> after \<open>b\<close>.
  It stands for SQLite's \<^verbatim>\<open>ORDER BY\<close> and for \<^verbatim>\<open>Array.prototype.sort\<close>. Rows that compare
  equal keep their order; no theorem below depends on that.
\<close>

fun insort_by :: "('a \<Rightarrow> 'a \<Rightarrow> bool) \<Rightarrow> 'a \<Rightarrow> 'a list \<Rightarrow> 'a list" where
  "insort_by le x [] = [x]"
| "insort_by le x (y # ys) = (if le x y then x # y # ys else y # insort_by le x ys)"

definition sort_by :: "('a \<Rightarrow> 'a \<Rightarrow> bool) \<Rightarrow> 'a list \<Rightarrow> 'a list" where
  "sort_by le xs = foldr (insort_by le) xs []"

section \<open>The SQL statements of server.ts\<close>

datatype db_error = NotNullConstraint | DatabaseFull

text \<open>
  \<^verbatim>\<open>SELECT * FROM transactions ORDER BY date DESC\<close>. The column is TEXT, compared byte by
  byte: the lexicographic order of strings.
\<close>

definition select_all :: "'n table \<Rightarrow> 'n transaction list" where
  "select_all db = sort_by (\<lambda>a b. date b \<le> date a) (rows db)"

text \<open>
  What the driver binds to a \<^verbatim>\<open>?\<close>: a number or a string as it is, and NULL for \<^verbatim>\<open>null\<close> and
  for \<^verbatim>\<open>undefined\<close> alike.
\<close>

definition column :: "'a field \<Rightarrow> 'a option" where
  "column f = (case f of Val v \<Rightarrow> Some v | Null \<Rightarrow> None | Absent \<Rightarrow> None)"

text \<open>
  \<^verbatim>\<open>id INTEGER PRIMARY KEY AUTOINCREMENT\<close>: the new rowid is one more than the largest rowid
  the table holds or has ever handed out; past the largest 64-bit integer the insert fails.
\<close>

definition next_rowid :: "'n table \<Rightarrow> int" where
  "next_rowid db = fold max (map tid (rows db)) (sqlite_sequence db) + 1"

record run_info =
  changes :: nat
  lastInsertRowid :: int

text \<open>
  \<^verbatim>\<open>INSERT INTO transactions (type, amount, category, date, note) VALUES (?, ?, ?, ?, ?)\<close>.
  The four columns declared \<^verbatim>\<open>NOT NULL\<close> reject a NULL; \<open>note\<close> takes one.
\<close>

definition run_insert ::
  "'n table \<Rightarrow> string field \<Rightarrow> 'n field \<Rightarrow> string field \<Rightarrow> string field \<Rightarrow> string field
    \<Rightarrow> db_error + 'n table \<times> run_info" where
  "run_insert db ty am ca da no =
     (if next_rowid db > 9223372036854775807 then Inl DatabaseFull
      else (case (column ty, column am, column ca, column da) of
              (Some ty', Some am', Some ca', Some da') \<Rightarrow>
                Inr (\<lparr>rows = rows db @
                        [\<lparr>tid = next_rowid db, ttype = ty', amount = am', category = ca',
                          date = da', tnote = column no\<rparr>],
                      sqlite_sequence = next_rowid db\<rparr>,
                     \<lparr>changes = 1, lastInsertRowid = next_rowid db\<rparr>)
            | _ \<Rightarrow> Inl NotNullConstraint))"

text \<open>
  \<^verbatim>\<open>UPDATE transactions SET type = ?, amount = ?, category = ?, date = ?, note = ? WHERE id = ?\<close>.
  The \<^verbatim>\<open>NOT NULL\<close> constraints are checked for the rows the statement touches: with no row
  of that id nothing is checked and nothing changes.
\<close>

definition run_update ::
  "'n table \<Rightarrow> string field \<Rightarrow> 'n field \<Rightarrow> string field \<Rightarrow> string field \<Rightarrow> string field
    \<Rightarrow> int \<Rightarrow> db_error + 'n table \<times> nat" where
  "run_update db ty am ca da no i =
     (if filter (\<lambda>r. tid r = i) (rows db) = [] then Inr (db, 0)
      else (case (column ty, column am, column ca, column da) of
              (Some ty', Some am', Some ca', Some da') \<Rightarrow>
                Inr (db\<lparr>rows :=
                          map (\<lambda>r. if tid r = i
                                    then r\<lparr>ttype := ty', amount := am', category := ca',
                                           date := da', tnote := column no\<rparr>
                                    else r) (rows db)\<rparr>,
                     length (filter (\<lambda>r. tid r = i) (rows db)))
            | _ \<Rightarrow> Inl NotNullConstraint))"

text \<open>\<^verbatim>\<open>DELETE FROM transactions\<close>: every row goes, the rowid counter stays.\<close>

definition run_delete_all :: "'n table \<Rightarrow> 'n table \<times> nat" where
  "run_delete_all db = (db\<lparr>rows := []\<rparr>, length (rows db))"

text \<open>\<^verbatim>\<open>DELETE FROM transactions WHERE id = ?\<close>.\<close>

definition run_delete :: "'n table \<Rightarrow> int \<Rightarrow> 'n table \<times> nat" where
  "run_delete db i =
     (db\<lparr>rows := filter (\<lambda>r. tid r \<noteq> i) (rows db)\<rparr>,
      length (filter (\<lambda>r. tid r = i) (rows db)))"

section \<open>The HTTP handlers of server.ts\<close>

datatype 'n payload =
    Transactions "'n transaction list"
  | Object "'n body"
  | Success "nat option"
  | Message string
  | ErrorPage

record 'n response =
  status :: nat
  payload :: "'n payload"

text \<open>\<^verbatim>\<open>res.json(x)\<close> answers 200 unless \<^verbatim>\<open>res.status\<close> was called first.\<close>

definition json :: "'n payload \<Rightarrow> 'n response" where
  "json p = \<lparr>status = 200, payload = p\<rparr>"

text \<open>
  \<^verbatim>\<open>{ id: n, ...req.body }\<close>: the properties of the body are copied after \<open>id\<close> is written, so
  an \<open>id\<close> property of the body replaces it.
\<close>

definition spread_id :: "int \<Rightarrow> 'n body \<Rightarrow> 'n body" where
  "spread_id n b = (case b_id b of Absent \<Rightarrow> b\<lparr>b_id := Val n\<rparr> | _ \<Rightarrow> b)"

text \<open>\<^verbatim>\<open>app.get("/api/transactions", ...)\<close>, lines 27-30.\<close>

definition get_transactions :: "'n table \<Rightarrow> 'n table \<times> 'n response" where
  "get_transactions db = (db, json (Transactions (select_all db)))"

text \<open>
  \<^verbatim>\<open>app.post("/api/transactions", ...)\<close>, lines 32-38. The handler has no \<^verbatim>\<open>try\<close>: an
  exception of the statement reaches Express, which answers 500 with its error page.
\<close>

definition post_transaction :: "'n table \<Rightarrow> 'n body \<Rightarrow> 'n table \<times> 'n response" where
  "post_transaction db b =
     (case run_insert db (b_type b) (b_amount b) (b_category b) (b_date b) (b_note b) of
        Inl e \<Rightarrow> (db, \<lparr>status = 500, payload = ErrorPage\<rparr>)
      | Inr (db', info) \<Rightarrow> (db', json (Object (spread_id (lastInsertRowid info) b))))"

text \<open>
  \<^verbatim>\<open>app.put("/api/transactions/:id", ...)\<close>, lines 40-52. The argument \<open>i\<close> is
  \<^verbatim>\<open>Number(id)\<close> for a path segment that denotes an integer.
\<close>

definition put_transaction :: "'n table \<Rightarrow> int \<Rightarrow> 'n body \<Rightarrow> 'n table \<times> 'n response" where
  "put_transaction db i b =
     (case run_update db (b_type b) (b_amount b) (b_category b) (b_date b) (b_note b) i of
        Inl e \<Rightarrow> (db, \<lparr>status = 500, payload = Message ''Internal server error''\<rparr>)
      | Inr (db', n) \<Rightarrow> (db', json (Object (spread_id i b))))"

text \<open>\<^verbatim>\<open>app.delete("/api/transactions", ...)\<close>, lines 54-64.\<close>

definition delete_all_transactions :: "'n table \<Rightarrow> 'n table \<times> 'n response" where
  "delete_all_transactions db =
     (case run_delete_all db of
        (db', n) \<Rightarrow> (db', \<lparr>status = 200, payload = Success (Some n)\<rparr>))"

text \<open>\<^verbatim>\<open>app.delete("/api/transactions/:id", ...)\<close>, lines 66-78.\<close>

definition delete_transaction :: "'n table \<Rightarrow> int \<Rightarrow> 'n table \<times> 'n response" where
  "delete_transaction db i =
     (case run_delete db i of
        (db', n) \<Rightarrow>
          if n = 0 then (db', \<lparr>status = 404, payload = Message ''Transaction not found''\<rparr>)
          else (db', \<lparr>status = 200, payload = Success None\<rparr>))"

section \<open>The client: plain objects used as dictionaries\<close>

text \<open>
  App.tsx keeps its running sums in plain objects (\<^verbatim>\<open>const map: Record<string, number> = {}\<close>).
  Such an object is the list of its own properties in creation order. It is not empty to a
  reader: a name it does not own is looked up in \<^verbatim>\<open>Object.prototype\<close>, whose members are the
  names below (functions, and the accessor \<^verbatim>\<open>__proto__\<close>).
\<close>

definition inherited :: "string list" where
  "inherited =
     [''constructor'', ''hasOwnProperty'', ''isPrototypeOf'', ''propertyIsEnumerable'',
      ''toLocaleString'', ''toString'', ''valueOf'', ''__proto__'', ''__defineGetter__'',
      ''__defineSetter__'', ''__lookupGetter__'', ''__lookupSetter__'']"

datatype 'v lookup = Own 'v | Inherited | Undefined

text \<open>\<^verbatim>\<open>obj[k]\<close> read.\<close>

definition get_prop :: "(string \<times> 'v) list \<Rightarrow> string \<Rightarrow> 'v lookup" where
  "get_prop obj k =
     (case map_of obj k of
        Some v \<Rightarrow> Own v
      | None \<Rightarrow> if k \<in> set inherited then Inherited else Undefined)"

text \<open>
  \<^verbatim>\<open>obj[k] = v\<close>. Writing \<^verbatim>\<open>__proto__\<close> calls the inherited setter, which ignores a value
  that is not an object (the month keys, which do receive objects, have at most seven
  characters and are never that name). Any other name becomes or stays an own property.
\<close>

definition set_prop :: "(string \<times> 'v) list \<Rightarrow> string \<Rightarrow> 'v \<Rightarrow> (string \<times> 'v) list" where
  "set_prop obj k v =
     (if k = ''__proto__'' then obj
      else if map_of obj k = None then obj @ [(k, v)]
      else map (\<lambda>(k', v'). if k' = k then (k', v) else (k', v')) obj)"

text \<open>
  \<^verbatim>\<open>Object.entries(obj)\<close>: the own properties, those whose name is an array index (a
  canonical decimal below \<open>2^32 - 1\<close>) first and in ascending order, the others after them
  in creation order.
\<close>

definition decimal :: "string \<Rightarrow> int" where
  "decimal s = foldl (\<lambda>n c. 10 * n + (of_char c - 48)) 0 s"

definition array_index :: "string \<Rightarrow> int option" where
  "array_index s =
     (if s \<noteq> [] \<and> list_all (\<lambda>c. CHR ''0'' \<le> c \<and> c \<le> CHR ''9'') s \<and>
         (s = ''0'' \<or> hd s \<noteq> CHR ''0'') \<and> decimal s < 4294967295
      then Some (decimal s) else None)"

definition entries :: "(string \<times> 'v) list \<Rightarrow> (string \<times> 'v) list" where
  "entries obj =
     sort_by (\<lambda>a b. case (array_index (fst a), array_index (fst b)) of
                       (Some m, Some n) \<Rightarrow> m \<le> n | _ \<Rightarrow> True)
       (filter (\<lambda>p. array_index (fst p) \<noteq> None) obj) @
     filter (\<lambda>p. array_index (fst p) = None) obj"

text \<open>
  What a running sum can hold: a number, or the text that \<open>+\<close> builds once one operand is
  not a number (its characters are the engine's rendering of a built-in function followed
  by amounts; only that it is a non-empty, non-numeric string matters).
\<close>

datatype 'n jsval = Num 'n | Text

text \<open>
  \<^verbatim>\<open>(x || 0) + a\<close> for \<open>x\<close> read from the object. \<^verbatim>\<open>undefined\<close> gives way to \<open>0\<close>, and so does a
  number that counts as false: \<open>0\<close>, \<open>-0\<close> and \<^verbatim>\<open>NaN\<close>, the numbers that are neither below nor
  above \<open>0\<close>. A function, an object or a non-empty string is kept, and \<open>+\<close> then concatenates.
\<close>

definition or_zero_plus :: "('n :: {plus, zero, ord}) jsval lookup \<Rightarrow> 'n \<Rightarrow> 'n jsval" where
  "or_zero_plus x a =
     (case x of
        Undefined \<Rightarrow> Num (0 + a)
      | Own (Num v) \<Rightarrow> Num ((if v < 0 \<or> 0 < v then v else 0) + a)
      | Own Text \<Rightarrow> Text
      | Inherited \<Rightarrow> Text)"

section \<open>The client: derived totals\<close>

record 'n tally =
  revenue :: 'n
  expense :: 'n

text \<open>\<^verbatim>\<open>totals\<close>, App.tsx lines 170-176.\<close>

definition totals :: "('n :: {plus, zero}) transaction list \<Rightarrow> 'n tally" where
  "totals txs =
     foldl (\<lambda>acc t. if ttype t = ''revenue''
                     then acc\<lparr>revenue := revenue acc + amount t\<rparr>
                     else acc\<lparr>expense := expense acc + amount t\<rparr>)
       \<lparr>revenue = 0, expense = 0\<rparr> txs"

text \<open>
  The sum of a list of amounts as the code forms it: from \<open>0\<close>, one amount after the other
  in list order. In doubles the order matters.
\<close>

definition sum_in_order :: "('n :: {plus, zero}) list \<Rightarrow> 'n" where
  "sum_in_order xs = foldl (+) 0 xs"

text \<open>
  \<^verbatim>\<open>categoryTotals\<close>, App.tsx lines 178-186. The comparator \<^verbatim>\<open>(a, b) => b[1] - a[1]\<close> puts \<open>a\<close>
  after \<open>b\<close> when the difference is above \<open>0\<close>; a difference that is \<^verbatim>\<open>NaN\<close>, as with a text,
  counts as \<open>0\<close>.
\<close>

definition add_to_category ::
  "('n :: {plus, zero, ord}) transaction \<Rightarrow> (string \<times> 'n jsval) list \<Rightarrow> (string \<times> 'n jsval) list" where
  "add_to_category t m =
     set_prop m (category t) (or_zero_plus (get_prop m (category t)) (amount t))"

definition by_amount_desc ::
  "string \<times> ('n :: {minus, zero, ord}) jsval \<Rightarrow> string \<times> 'n jsval \<Rightarrow> bool" where
  "by_amount_desc a b =
     (case (snd b, snd a) of (Num y, Num x) \<Rightarrow> \<not> 0 < y - x | _ \<Rightarrow> True)"

definition categoryTotals ::
  "('n :: {plus, minus, zero, ord}) transaction list \<Rightarrow> (string \<times> 'n jsval) list" where
  "categoryTotals txs =
     sort_by by_amount_desc
       (entries (fold (\<lambda>t m. if ttype t = ''expense'' then add_to_category t m else m) txs []))"

text \<open>
  \<^verbatim>\<open>monthlyReport\<close>, App.tsx lines 188-208. A month whose name the empty object inherits is
  "there" although never created: the sums then go to the inherited function, and reading
  its \<^verbatim>\<open>categories\<close> for an expense throws. \<^verbatim>\<open>localeCompare\<close> is the browser's collation, a
  parameter here.
\<close>

record 'n month_tally = "'n tally" +
  categories :: "(string \<times> 'n jsval) list"

datatype js_error = TypeError

definition add_to_month ::
  "('n :: {plus, zero, ord}) transaction \<Rightarrow> 'n month_tally \<Rightarrow> 'n month_tally" where
  "add_to_month t d =
     (if ttype t = ''revenue'' then d\<lparr>revenue := revenue d + amount t\<rparr>
      else d\<lparr>expense := expense d + amount t,
             categories := add_to_category t (categories d)\<rparr>)"

text \<open>The body of the \<^verbatim>\<open>forEach\<close> callback, and the loop, which an exception leaves.\<close>

definition month_step ::
  "('n :: {plus, zero, ord}) transaction \<Rightarrow> (string \<times> 'n month_tally) list
    \<Rightarrow> js_error + (string \<times> 'n month_tally) list" where
  "month_step t months =
     (case get_prop months (take 7 (date t)) of
        Inherited \<Rightarrow> if ttype t = ''revenue'' then Inr months else Inl TypeError
      | Undefined \<Rightarrow>
          Inr (set_prop months (take 7 (date t))
                 (add_to_month t \<lparr>revenue = 0, expense = 0, categories = []\<rparr>))
      | Own d \<Rightarrow> Inr (set_prop months (take 7 (date t)) (add_to_month t d)))"

fun months_loop ::
  "(string \<times> ('n :: {plus, zero, ord}) month_tally) list \<Rightarrow> 'n transaction list
    \<Rightarrow> js_error + (string \<times> 'n month_tally) list" where
  "months_loop months [] = Inr months"
| "months_loop months (t # ts) =
     (case month_step t months of
        Inl e \<Rightarrow> Inl e
      | Inr months' \<Rightarrow> months_loop months' ts)"

definition monthlyReport ::
  "(string \<Rightarrow> string \<Rightarrow> int) \<Rightarrow> ('n :: {plus, zero, ord}) transaction list
    \<Rightarrow> js_error + (string \<times> 'n month_tally) list" where
  "monthlyReport localeCompare txs =
     (case months_loop [] txs of
        Inl e \<Rightarrow> Inl e
      | Inr months \<Rightarrow>
          Inr (sort_by (\<lambda>a b. localeCompare (fst b) (fst a) \<le> 0) (entries months)))"

section \<open>The client: CSV export\<close>

text \<open>
  \<^verbatim>\<open>handleExportCSV\<close>, App.tsx lines 143-168, up to the text handed to the browser for
  download. Its second argument \<^verbatim>\<open>data\<close> is never read. \<^verbatim>\<open>join\<close> turns a number into text
  with the engine's number-to-string conversion, a parameter here. No field is quoted.
\<close>

definition startsWith :: "string \<Rightarrow> string \<Rightarrow> bool" where
  "startsWith s p = (take (length p) s = p)"

fun join :: "string \<Rightarrow> string list \<Rightarrow> string" where
  "join sep [] = []"
| "join sep [x] = x"
| "join sep (x # y # ys) = x @ sep @ join sep (y # ys)"

datatype 'n cell = S string | N 'n

definition cell_text :: "('n \<Rightarrow> string) \<Rightarrow> 'n cell \<Rightarrow> string" where
  "cell_text number_text c = (case c of S s \<Rightarrow> s | N x \<Rightarrow> number_text x)"

definition csv_rows :: "'n transaction list \<Rightarrow> string \<Rightarrow> 'n cell list list" where
  "csv_rows txs month =
     map (\<lambda>t. [S (date t), S (ttype t), S (category t), N (amount t),
               S (case tnote t of None \<Rightarrow> '''' | Some n \<Rightarrow> if n = '''' then '''' else n)])
       (filter (\<lambda>t. startsWith (date t) month) txs)"

record download =
  filename :: string
  content :: string

definition handleExportCSV :: "('n \<Rightarrow> string) \<Rightarrow> 'n transaction list \<Rightarrow> string \<Rightarrow> download" where
  "handleExportCSV number_text txs month =
     \<lparr>filename = ''SpendWise_Report_'' @ month @ ''.csv'',
      content =
        join [CHR 0x0A]
          (join '','' [''Date'', ''Type'', ''Category'', ''Amount'', ''Note''] #
           map (\<lambda>r. join '','' (map (cell_text number_text) r)) (csv_rows txs month))\<rparr>"

text \<open>
  How a reader of the file cuts it: into rows at every line feed, a row into fields at
  every comma (a text with no separator is one piece).
\<close>

fun split_on :: "char \<Rightarrow> string \<Rightarrow> string list" where
  "split_on c [] = [[]]"
| "split_on c (x # xs) =
     (if x = c then [] # split_on c xs
      else (case split_on c xs of [] \<Rightarrow> [[x]] | y # ys \<Rightarrow> (x # y) # ys))"

definition csv_read :: "string \<Rightarrow> string list list" where
  "csv_read text = map (split_on (CHR '','')) (split_on (CHR 0x0A) text)"

section \<open>The client: fetching and showing the list\<close>

text \<open>
  The part of the component's state that the list and the aggregates depend on, and
  \<^verbatim>\<open>fetchTransactions\<close> (App.tsx lines 42-52): the list that the list endpoint answers with
  becomes the state as it is, and \<open>loading\<close> ends. The endpoint gives no other answer; the
  last case only makes the function total.
\<close>

record 'n app =
  transactions :: "'n transaction list"
  loading :: bool

definition fetchTransactions :: "'n table \<Rightarrow> 'n app \<Rightarrow> 'n app" where
  "fetchTransactions db st =
     (case payload (snd (get_transactions db)) of
        Transactions data \<Rightarrow> st\<lparr>transactions := data, loading := False\<rparr>
      | _ \<Rightarrow> st\<lparr>loading := False\<rparr>)"

text \<open>
  The list under "Recent Transactions" (App.tsx lines 268-334): a spinner while loading,
  a notice for an empty ledger, else one card per element of \<open>transactions\<close>, by
  \<^verbatim>\<open>transactions.map\<close>, in the order of the state. A card shows the category, the date, a
  plus or minus by type, and the amount; its key is the id.
\<close>

record 'n card =
  card_key :: int
  card_plus :: bool
  card_category :: string
  card_date :: string
  card_amount :: 'n

datatype 'n view = Spinner | EmptyLedger | Cards "'n card list"

definition recent_transactions :: "'n app \<Rightarrow> 'n view" where
  "recent_transactions st =
     (if loading st then Spinner
      else if length (transactions st) = 0 then EmptyLedger
      else Cards (map (\<lambda>t. \<lparr>card_key = tid t, card_plus = (ttype t = ''revenue''),
                              card_category = category t, card_date = date t,
                              card_amount = amount t\<rparr>) (transactions st)))"

section \<open>A small ledger\<close>

text \<open>A collation for the examples: comparison by character codes.\<close>

definition code_unit_compare :: "string \<Rightarrow> string \<Rightarrow> int" where
  "code_unit_compare a b = (if a < b then - 1 else if a = b then 0 else 1)"

text \<open>
  The amounts of the examples are numbers that doubles hold exactly, as are their sums, so
  that the arithmetic of the reals gives what the code computes.
\<close>

definition groceries :: "real transaction" where
  "groceries = \<lparr>tid = 1, ttype = ''expense'', amount = 42.5, category = ''Food'',
                 date = ''2024-01-15'', tnote = Some ''weekly shop''\<rparr>"

definition salary :: "real transaction" where
  "salary = \<lparr>tid = 2, ttype = ''revenue'', amount = 3000, category = ''Salary'',
              date = ''2024-01-31'', tnote = None\<rparr>"

definition rent :: "real transaction" where
  "rent = \<lparr>tid = 3, ttype = ''expense'', amount = 900, category = ''Rent'',
            date = ''2024-02-01'', tnote = Some ''''\<rparr>"

definition constructor_fee :: "real transaction" where
  "constructor_fee = \<lparr>tid = 4, ttype = ''expense'', amount = 5, category = ''constructor'',
                       date = ''2024-01-20'', tnote = None\<rparr>"

definition coffee :: "real transaction" where
  "coffee = \<lparr>tid = 5, ttype = ''expense'', amount = 7.5, category = ''Food'',
              date = ''2024-01-18'', tnote = None\<rparr>"

definition bonus :: "real transaction" where
  "bonus = \<lparr>tid = 6, ttype = ''revenue'', amount = 500, category = ''Salary'',
             date = ''2024-01-31'', tnote = Some ''year end''\<rparr>"

definition ledger :: "real table" where
  "ledger = \<lparr>rows = [groceries, salary, rent], sqlite_sequence = 3\<rparr>"

text \<open>Request bodies: a complete one, one without a note, one whose type is null, one that
  names an id.\<close>

definition march_body :: "real body" where
  "march_body = \<lparr>b_id = Absent, b_type = Val ''expense'', b_amount = Val 10,
                  b_category = Val ''Food'', b_date = Val ''2024-03-01'', b_note = Val ''''\<rparr>"

definition no_note_body :: "real body" where
  "no_note_body = march_body\<lparr>b_note := Absent\<rparr>"

definition null_type_body :: "real body" where
  "null_type_body = march_body\<lparr>b_type := Null\<rparr>"

definition chosen_id_body :: "real body" where
  "chosen_id_body = march_body\<lparr>b_id := Val 42\<rparr>"

text \<open>How the examples print their amounts.\<close>

definition example_number_text :: "real \<Rightarrow> string" where
  "example_number_text x =
     (if x = 3000 then ''3000'' else if x = 42.5 then ''42.5'' else if x = 7.5 then ''7.5''
      else if x = 500 then ''500'' else ''900'')"

section \<open>Properties of the sort\<close>

lemma mset_insort_by: "mset (insort_by le x xs) = add_mset x (mset xs)"
  by (induction xs) simp_all

lemma mset_sort_by: "mset (sort_by le xs) = mset xs"
  by (induction xs) (simp_all add: sort_by_def mset_insort_by)

lemma set_insort_by: "set (insort_by le x xs) = insert x (set xs)"
  by (induction xs) auto

lemma set_sort_by: "set (sort_by le xs) = set xs"
  by (induction xs) (simp_all add: sort_by_def set_insort_by)

lemma sorted_insort_by:
  assumes total: "\<And>a b. le a b \<or> le b a"
    and trans: "\<And>a b c. le a b \<Longrightarrow> le b c \<Longrightarrow> le a c"
    and sorted: "sorted_wrt le xs"
  shows "sorted_wrt le (insort_by le x xs)"
  using sorted
proof (induction xs)
  case Nil
  then show ?case by simp
next
  case (Cons y ys)
  show ?case
  proof (cases "le x y")
    case True
    have "\<forall>z\<in>set ys. le x z"
      using Cons.prems True trans by auto
    with True Cons.prems show ?thesis by simp
  next
    case False
    then have "le y x" using total by blast
    with False Cons show ?thesis by (auto simp: set_insort_by)
  qed
qed

lemma sorted_sort_by:
  assumes "\<And>a b. le a b \<or> le b a"
    and "\<And>a b c. le a b \<Longrightarrow> le b c \<Longrightarrow> le a c"
  shows "sorted_wrt le (sort_by le xs)"
proof (induction xs)
  case Nil
  show ?case by (simp add: sort_by_def)
next
  case (Cons x xs)
  have "sort_by le (x # xs) = insort_by le x (sort_by le xs)"
    by (simp add: sort_by_def)
  with Cons sorted_insort_by [of le "sort_by le xs" x] assms show ?case
    by metis
qed

section \<open>The list endpoint\<close>

text \<open>
  C8. For every table state, GET /api/transactions answers with the whole table: the
  returned list holds each stored row exactly once (equal as multisets, so nothing is cut
  off, paged or repeated), and the table is left as it was.
\<close>

theorem get_transactions_complete:
  "fst (get_transactions db) = db \<and>
   (\<exists>rs. snd (get_transactions db) = \<lparr>status = 200, payload = Transactions rs\<rparr> \<and>
         mset rs = mset (rows db) \<and> length rs = length (rows db))"
proof -
  have "mset (select_all db) = mset (rows db)"
    by (simp add: select_all_def mset_sort_by)
  moreover from this have "length (select_all db) = length (rows db)"
    by (metis size_mset)
  ultimately show ?thesis
    by (simp add: get_transactions_def json_def)
qed

lemma totals_foldl:
  "foldl (\<lambda>acc t. if ttype t = ''revenue''
                    then acc\<lparr>revenue := revenue acc + amount t\<rparr>
                    else acc\<lparr>expense := expense acc + amount t\<rparr>) acc ts =
   acc\<lparr>revenue := foldl (+) (revenue acc) (map amount (filter (\<lambda>t. ttype t = ''revenue'') ts)),
       expense := foldl (+) (expense acc) (map amount (filter (\<lambda>t. ttype t \<noteq> ''revenue'') ts))\<rparr>"
  by (induction ts arbitrary: acc) simp_all

lemma totals_in_order:
  "revenue (totals ts) = sum_in_order (map amount (filter (\<lambda>t. ttype t = ''revenue'') ts))"
  "expense (totals ts) = sum_in_order (map amount (filter (\<lambda>t. ttype t \<noteq> ''revenue'') ts))"
  by (simp_all add: totals_def totals_foldl sum_in_order_def)

text \<open>
  C10. For every table state, the list that GET /api/transactions returns holds the stored
  rows, each once, sorted by date in descending lexicographic order: an entry never has a
  smaller date string than an entry after it. The client takes this list as its state
  unchanged, shows one card per entry in that order (or the notice of an empty ledger),
  and forms its totals over it in that order.
\<close>

theorem get_transactions_newest_first:
  "\<exists>rs. snd (get_transactions db) = \<lparr>status = 200, payload = Transactions rs\<rparr> \<and>
        mset rs = mset (rows db) \<and>
        sorted_wrt (\<lambda>a b. date b \<le> date a) rs \<and>
        transactions (fetchTransactions db st) = rs \<and>
        recent_transactions (fetchTransactions db st) =
          (if rows db = [] then EmptyLedger
           else Cards (map (\<lambda>t. \<lparr>card_key = tid t, card_plus = (ttype t = ''revenue''),
                                   card_category = category t, card_date = date t,
                                   card_amount = amount t\<rparr>) rs)) \<and>
        revenue (totals (transactions (fetchTransactions db st))) =
          sum_in_order (map amount (filter (\<lambda>t. ttype t = ''revenue'') rs)) \<and>
        expense (totals (transactions (fetchTransactions db st))) =
          sum_in_order (map amount (filter (\<lambda>t. ttype t \<noteq> ''revenue'') rs))"
proof -
  let ?rs = "select_all db"
  have answer: "snd (get_transactions db) = \<lparr>status = 200, payload = Transactions ?rs\<rparr>"
    by (simp add: get_transactions_def json_def)
  have perm: "mset ?rs = mset (rows db)"
    by (simp add: select_all_def mset_sort_by)
  have sorted: "sorted_wrt (\<lambda>a b. date b \<le> date a) ?rs"
    unfolding select_all_def by (rule sorted_sort_by) auto
  have state: "transactions (fetchTransactions db st) = ?rs"
    "loading (fetchTransactions db st) = False"
    by (simp_all add: fetchTransactions_def answer)
  from perm have empty: "(?rs = []) = (rows db = [])"
    by (metis mset_zero_iff)
  have shown: "recent_transactions (fetchTransactions db st) =
          (if rows db = [] then EmptyLedger
           else Cards (map (\<lambda>t. \<lparr>card_key = tid t, card_plus = (ttype t = ''revenue''),
                                   card_category = category t, card_date = date t,
                                   card_amount = amount t\<rparr>) ?rs))"
    using empty by (simp add: recent_transactions_def state)
  from answer perm sorted state(1) shown totals_in_order [of ?rs] show ?thesis
    by (intro exI [of _ ?rs]) simp
qed

text \<open>On the small ledger the three rows come back newest first.\<close>

lemma get_transactions_ledger:
  "snd (get_transactions ledger) =
     \<lparr>status = 200, payload = Transactions [rent, salary, groceries]\<rparr>"
  by (simp add: get_transactions_def json_def select_all_def sort_by_def ledger_def
      groceries_def salary_def rent_def)

section \<open>The delete endpoints\<close>

text \<open>
  C6. For every table state, DELETE /api/transactions leaves the table empty and answers
  200 with success and with \<open>changes\<close> equal to the number of rows the table held before.
\<close>

theorem delete_all_transactions_wipes:
  "rows (fst (delete_all_transactions db)) = [] \<and>
   snd (delete_all_transactions db) =
     \<lparr>status = 200, payload = Success (Some (length (rows db)))\<rparr>"
  by (simp add: delete_all_transactions_def run_delete_all_def)

text \<open>
  C9. For every table state and every id \<open>i\<close>, DELETE /api/transactions/:id answers 404
  with the message 'Transaction not found' exactly when no row has id \<open>i\<close>, and then the
  table is unchanged; when a row has id \<open>i\<close>, the rows left are the rows of every other id,
  each as it was and in the same order, and the answer is 200 with success.
\<close>

theorem delete_transaction_spec:
  "(snd (delete_transaction db i) =
      \<lparr>status = 404, payload = Message ''Transaction not found''\<rparr>)
     = (i \<notin> tid ` set (rows db)) \<and>
   (i \<notin> tid ` set (rows db) \<longrightarrow> fst (delete_transaction db i) = db) \<and>
   (i \<in> tid ` set (rows db) \<longrightarrow>
      rows (fst (delete_transaction db i)) = filter (\<lambda>r. tid r \<noteq> i) (rows db) \<and>
      i \<notin> tid ` set (rows (fst (delete_transaction db i))) \<and>
      sqlite_sequence (fst (delete_transaction db i)) = sqlite_sequence db \<and>
      snd (delete_transaction db i) = \<lparr>status = 200, payload = Success None\<rparr>)"
proof -
  have none: "filter (\<lambda>r. tid r = i) (rows db) = [] \<longleftrightarrow> i \<notin> tid ` set (rows db)"
    by (auto simp: filter_empty_conv)
  have keep: "i \<notin> tid ` set (rows db) \<Longrightarrow> filter (\<lambda>r. tid r \<noteq> i) (rows db) = rows db"
    by (induction "rows db") (auto simp: filter_id_conv)
  show ?thesis
    using none keep
    by (auto simp: delete_transaction_def run_delete_def)
qed

text \<open>The two answers of the endpoint, on the small ledger: id 2 is there, id 7 is not.\<close>

theorem delete_transaction_spec_witness:
  "2 \<in> tid ` set (rows ledger) \<and>
   rows (fst (delete_transaction ledger 2)) = [groceries, rent] \<and>
   snd (delete_transaction ledger 2) = \<lparr>status = 200, payload = Success None\<rparr> \<and>
   7 \<notin> tid ` set (rows ledger) \<and>
   fst (delete_transaction ledger 7) = ledger \<and>
   snd (delete_transaction ledger 7) =
     \<lparr>status = 404, payload = Message ''Transaction not found''\<rparr>"
  using delete_transaction_spec [of ledger 2] delete_transaction_spec [of ledger 7]
  by (simp add: ledger_def groceries_def salary_def rent_def)

section \<open>Revenue and expense totals\<close>

text \<open>
  C1. For every list of transactions whose types are all 'expense' or 'revenue', the
  client's totals are: \<open>revenue\<close> the sum of the amounts of the 'revenue' transactions,
  \<open>expense\<close> the sum of the amounts of the 'expense' transactions; each sum is the one that
  adds the amounts in list order, from 0, in the arithmetic of the amounts.
\<close>

theorem totals_sums:
  assumes "\<forall>t\<in>set ts. ttype t = ''expense'' \<or> ttype t = ''revenue''"
  shows "revenue (totals ts) =
           sum_in_order (map amount (filter (\<lambda>t. ttype t = ''revenue'') ts)) \<and>
         expense (totals ts) =
           sum_in_order (map amount (filter (\<lambda>t. ttype t = ''expense'') ts))"
proof -
  have "filter (\<lambda>t. ttype t \<noteq> ''revenue'') ts = filter (\<lambda>t. ttype t = ''expense'') ts"
    using assms by (intro filter_cong) auto
  with totals_in_order [of ts] show ?thesis
    by simp
qed

theorem totals_sums_witness:
  "ttype groceries = ''expense'' \<and> ttype salary = ''revenue'' \<and> ttype rent = ''expense'' \<and>
   ttype coffee = ''expense'' \<and> ttype bonus = ''revenue'' \<and>
   revenue (totals [groceries, salary, rent, coffee, bonus]) = 3500 \<and>
   expense (totals [groceries, salary, rent, coffee, bonus]) = 950"
proof -
  note ex = groceries_def salary_def rent_def coffee_def bonus_def
  have types: "\<forall>t\<in>set [groceries, salary, rent, coffee, bonus].
      ttype t = ''expense'' \<or> ttype t = ''revenue''"
    by (simp add: ex)
  from totals_sums [OF types] types show ?thesis
    by (simp add: ex sum_in_order_def)
qed

section \<open>CSV export\<close>

lemma split_on_not_Nil: "split_on c s \<noteq> []"
  by (induction s) (simp_all split: list.splits)







text \<open>
  Outside that condition the rows are not kept: a note with a comma in it, which the form's
  text input accepts, gives a row of six fields.
\<close>

lemma handleExportCSV_unquoted_note:
  "csv_read (content (handleExportCSV example_number_text
      [salary\<lparr>tnote := Some ''a,b''\<rparr>] ''2024-01'')) =
     [[''Date'', ''Type'', ''Category'', ''Amount'', ''Note''],
      [''2024-01-31'', ''revenue'', ''Salary'', ''3000'', ''a'', ''b'']]"
  by (simp add: handleExportCSV_def csv_rows_def startsWith_def cell_text_def csv_read_def
      salary_def example_number_text_def)

section \<open>The update endpoint\<close>

text \<open>
  The claim C5 promises the replacement for every request. A body whose type is null is
  refused by the \<^verbatim>\<open>NOT NULL\<close> constraint: the handler catches the exception, answers 500,
  and row 1 keeps its amount 42.5 instead of the body's 10. The same holds of a null or
  missing amount, category or date.
\<close>

theorem put_transaction_null_type_counterexample:
  "put_transaction ledger 1 null_type_body =
     (ledger, \<lparr>status = 500, payload = Message ''Internal server error''\<rparr>) \<and>
   b_amount null_type_body = Val 10 \<and>
   map amount (filter (\<lambda>r. tid r = 1) (rows (fst (put_transaction ledger 1 null_type_body))))
     = [42.5] \<and>
   put_transaction ledger 1 (march_body\<lparr>b_amount := Null\<rparr>) =
     (ledger, \<lparr>status = 500, payload = Message ''Internal server error''\<rparr>) \<and>
   put_transaction ledger 1 (march_body\<lparr>b_category := Absent\<rparr>) =
     (ledger, \<lparr>status = 500, payload = Message ''Internal server error''\<rparr>) \<and>
   put_transaction ledger 1 (march_body\<lparr>b_date := Null\<rparr>) =
     (ledger, \<lparr>status = 500, payload = Message ''Internal server error''\<rparr>)"
  by (simp add: put_transaction_def run_update_def column_def null_type_body_def
      march_body_def ledger_def groceries_def salary_def rent_def)

text \<open>
  C5, amended. For every table state, every id \<open>i\<close> and every request body that carries a
  type, an amount, a category and a date, none of them null, PUT /api/transactions/:id
  answers 200 and replaces all fields of the row with id \<open>i\<close>: type, amount, category and
  date become the body's values, the note becomes the body's note (null when the body has
  none) and the id stays \<open>i\<close>; every row whose id differs from \<open>i\<close> is unchanged, and no
  row is added or removed.
\<close>

theorem put_transaction_full_replace:
  assumes "b_type b = Val ty" and "b_amount b = Val am" and "b_category b = Val ca"
    and "b_date b = Val da"
  shows "status (snd (put_transaction db i b)) = 200 \<and>
         length (rows (fst (put_transaction db i b))) = length (rows db) \<and>
         (\<forall>k<length (rows db).
            rows (fst (put_transaction db i b)) ! k =
              (if tid (rows db ! k) = i
               then \<lparr>tid = i, ttype = ty, amount = am, category = ca, date = da,
                     tnote = column (b_note b)\<rparr>
               else rows db ! k)) \<and>
         sqlite_sequence (fst (put_transaction db i b)) = sqlite_sequence db"
proof (cases "filter (\<lambda>r. tid r = i) (rows db) = []")
  case True
  then have "\<forall>k<length (rows db). tid (rows db ! k) \<noteq> i"
    by (auto simp: filter_empty_conv)
  with True assms show ?thesis
    by (simp add: put_transaction_def run_update_def json_def)
next
  case False
  have upd: "r\<lparr>ttype := ty, amount := am, category := ca, date := da, tnote := n\<rparr> =
      \<lparr>tid = tid r, ttype = ty, amount = am, category = ca, date = da, tnote = n\<rparr>"
    for r :: "'a transaction" and n
    by (cases r) simp
  from False assms show ?thesis
    by (simp add: put_transaction_def run_update_def column_def json_def upd)
qed

theorem put_transaction_full_replace_witness:
  "b_type no_note_body = Val ''expense'' \<and> b_amount no_note_body = Val 10 \<and>
   b_category no_note_body = Val ''Food'' \<and> b_date no_note_body = Val ''2024-03-01'' \<and>
   b_note no_note_body = Absent \<and>
   status (snd (put_transaction ledger 3 no_note_body)) = 200 \<and>
   rows (fst (put_transaction ledger 3 no_note_body)) ! 2 =
     \<lparr>tid = 3, ttype = ''expense'', amount = 10, category = ''Food'', date = ''2024-03-01'',
      tnote = None\<rparr> \<and>
   rows (fst (put_transaction ledger 3 no_note_body)) ! 0 = groceries \<and>
   rows (fst (put_transaction ledger 3 no_note_body)) ! 1 = salary"
proof -
  have b: "b_type no_note_body = Val ''expense''" "b_amount no_note_body = Val 10"
    "b_category no_note_body = Val ''Food''" "b_date no_note_body = Val ''2024-03-01''"
    by (simp_all add: no_note_body_def march_body_def)
  have len: "length (rows ledger) = 3"
    by (simp add: ledger_def)
  have ids: "tid (rows ledger ! 0) = 1" "tid (rows ledger ! 1) = 2" "tid (rows ledger ! 2) = 3"
    "rows ledger ! 0 = groceries" "rows ledger ! 1 = salary"
    by (simp_all add: ledger_def groceries_def salary_def rent_def)
  have note0: "b_note no_note_body = Absent" "column (b_note no_note_body) = None"
    by (simp_all add: no_note_body_def march_body_def column_def)
  from put_transaction_full_replace [OF b, of ledger 3] len
  have all: "status (snd (put_transaction ledger 3 no_note_body)) = 200"
    "\<And>k. k < 3 \<Longrightarrow> rows (fst (put_transaction ledger 3 no_note_body)) ! k =
       (if tid (rows ledger ! k) = 3
        then \<lparr>tid = 3, ttype = ''expense'', amount = 10, category = ''Food'',
              date = ''2024-03-01'', tnote = column (b_note no_note_body)\<rparr>
        else rows ledger ! k)"
    by simp_all
  from all(2) [of 0] all(2) [of 1] all(2) [of 2] all(1) b ids note0 show ?thesis
    by simp
qed

section \<open>The create endpoint\<close>

lemma fold_max_lower: "s \<le> fold max xs (s :: int)"
proof (induction xs arbitrary: s)
  case Nil
  show ?case by simp
next
  case (Cons y ys)
  have "s \<le> max y s" by simp
  also have "max y s \<le> fold max ys (max y s)" by (rule Cons.IH)
  finally show ?case by simp
qed

lemma fold_max_upper: "x \<in> set xs \<Longrightarrow> x \<le> fold max xs (s :: int)"
proof (induction xs arbitrary: s)
  case Nil
  then show ?case by simp
next
  case (Cons y ys)
  show ?case
  proof (cases "x = y")
    case True
    have "y \<le> max y s" by simp
    also have "max y s \<le> fold max ys (max y s)" by (rule fold_max_lower)
    finally show ?thesis using True by simp
  next
    case False
    with Cons.prems have "x \<in> set ys" by simp
    then have "x \<le> fold max ys (max y s)" by (rule Cons.IH)
    then show ?thesis by simp
  qed
qed

lemma next_rowid_fresh: "r \<in> set (rows db) \<Longrightarrow> tid r < next_rowid db"
proof -
  assume "r \<in> set (rows db)"
  then have "tid r \<in> set (map tid (rows db))" by simp
  then have "tid r \<le> fold max (map tid (rows db)) (sqlite_sequence db)"
    by (rule fold_max_upper)
  then show ?thesis by (simp add: next_rowid_def)
qed

lemma next_rowid_not_stored: "next_rowid db \<notin> tid ` set (rows db)"
proof
  assume "next_rowid db \<in> tid ` set (rows db)"
  then obtain r where "r \<in> set (rows db)" and "tid r = next_rowid db" by auto
  with next_rowid_fresh [of r db] show False by simp
qed

text \<open>
  The claim C7 speaks of every create request. Three requests for which it fails, on the
  small ledger: a body that names an id gets that id back in the response, 42, while the
  row is stored under 4 (the spread in \<^verbatim>\<open>res.json({ id: info.lastInsertRowid, ...req.body })\<close>
  comes after \<open>id\<close>); a body whose type is null is refused by the \<^verbatim>\<open>NOT NULL\<close> constraint
  and nothing is stored; and once the largest rowid has been handed out, nothing more can
  be stored.
\<close>

theorem post_transaction_counterexample:
  "map tid (rows (fst (post_transaction ledger chosen_id_body))) = [1, 2, 3, 4] \<and>
   snd (post_transaction ledger chosen_id_body) =
     \<lparr>status = 200, payload = Object chosen_id_body\<rparr> \<and>
   b_id chosen_id_body = Val 42 \<and>
   post_transaction ledger null_type_body = (ledger, \<lparr>status = 500, payload = ErrorPage\<rparr>) \<and>
   post_transaction (ledger\<lparr>sqlite_sequence := 9223372036854775807\<rparr>) march_body =
     (ledger\<lparr>sqlite_sequence := 9223372036854775807\<rparr>, \<lparr>status = 500, payload = ErrorPage\<rparr>)"
  by (simp add: post_transaction_def run_insert_def column_def json_def
      spread_id_def next_rowid_def chosen_id_body_def null_type_body_def march_body_def
      ledger_def groceries_def salary_def rent_def)

text \<open>
  C7, amended. For every table state whose rowids are not used up and every create request
  whose body carries a type, an amount, a category and a date, none of them null: the new
  row is appended under the id that the store assigns, which depends on the table alone
  (the body cannot choose it) and which no row already in the table has; the row holds the
  submitted type, amount, category, date and note (null when the body has none), type and
  amount stored as sent, whatever their value; the response is 200 and carries the
  submitted fields and, when the body names no id, the new id.
\<close>

theorem post_transaction_creates:
  assumes "b_type b = Val ty" and "b_amount b = Val am" and "b_category b = Val ca"
    and "b_date b = Val da"
    and "next_rowid db \<le> 9223372036854775807"
  shows "rows (fst (post_transaction db b)) =
           rows db @ [\<lparr>tid = next_rowid db, ttype = ty, amount = am, category = ca,
                       date = da, tnote = column (b_note b)\<rparr>] \<and>
         next_rowid db \<notin> tid ` set (rows db) \<and>
         status (snd (post_transaction db b)) = 200 \<and>
         (\<exists>r. payload (snd (post_transaction db b)) = Object r \<and>
              b_type r = Val ty \<and> b_amount r = Val am \<and> b_category r = Val ca \<and>
              b_date r = Val da \<and> b_note r = b_note b \<and>
              (b_id b = Absent \<longrightarrow> b_id r = Val (next_rowid db)))"
proof -
  have run: "run_insert db (b_type b) (b_amount b) (b_category b) (b_date b) (b_note b) =
      Inr (\<lparr>rows = rows db @
               [\<lparr>tid = next_rowid db, ttype = ty, amount = am, category = ca,
                 date = da, tnote = column (b_note b)\<rparr>],
             sqlite_sequence = next_rowid db\<rparr>,
           \<lparr>changes = 1, lastInsertRowid = next_rowid db\<rparr>)"
    using assms by (simp add: run_insert_def column_def)
  have echo: "b_type (spread_id n b) = Val ty \<and> b_amount (spread_id n b) = Val am \<and>
      b_category (spread_id n b) = Val ca \<and> b_date (spread_id n b) = Val da \<and>
      b_note (spread_id n b) = b_note b \<and> (b_id b = Absent \<longrightarrow> b_id (spread_id n b) = Val n)"
    for n
    using assms by (cases "b_id b") (simp_all add: spread_id_def)
  from run echo [of "next_rowid db"] next_rowid_not_stored [of db] show ?thesis
    by (simp add: post_transaction_def json_def)
qed

theorem post_transaction_creates_witness:
  "b_type march_body = Val ''expense'' \<and> b_amount march_body = Val 10 \<and>
   b_category march_body = Val ''Food'' \<and> b_date march_body = Val ''2024-03-01'' \<and>
   next_rowid ledger \<le> 9223372036854775807 \<and>
   rows (fst (post_transaction ledger march_body)) =
     [groceries, salary, rent,
      \<lparr>tid = 4, ttype = ''expense'', amount = 10, category = ''Food'', date = ''2024-03-01'',
       tnote = Some ''''\<rparr>] \<and>
   4 \<notin> tid ` set (rows ledger) \<and>
   status (snd (post_transaction ledger march_body)) = 200 \<and>
   (\<exists>r. payload (snd (post_transaction ledger march_body)) = Object r \<and> b_id r = Val 4 \<and>
        b_amount r = Val 10)"
proof -
  have b: "b_type march_body = Val ''expense''" "b_amount march_body = Val 10"
    "b_category march_body = Val ''Food''" "b_date march_body = Val ''2024-03-01''"
    by (simp_all add: march_body_def)
  have next4: "next_rowid ledger = 4"
    by (simp add: next_rowid_def ledger_def groceries_def salary_def rent_def)
  then have bound: "next_rowid ledger \<le> 9223372036854775807"
    by simp
  have more: "b_id march_body = Absent" "column (b_note march_body) = Some ''''"
    "rows ledger = [groceries, salary, rent]"
    by (simp_all add: march_body_def column_def ledger_def)
  from post_transaction_creates [OF b bound] b bound more next4 show ?thesis
    by auto
qed

text \<open>A body without a note is stored with a null note and answered 200.\<close>

lemma post_transaction_without_note:
  "post_transaction ledger no_note_body =
     (\<lparr>rows = [groceries, salary, rent,
               \<lparr>tid = 4, ttype = ''expense'', amount = 10, category = ''Food'',
                date = ''2024-03-01'', tnote = None\<rparr>],
       sqlite_sequence = 4\<rparr>,
      \<lparr>status = 200, payload = Object (no_note_body\<lparr>b_id := Val 4\<rparr>)\<rparr>)"
  by (simp add: post_transaction_def run_insert_def column_def json_def spread_id_def
      next_rowid_def no_note_body_def march_body_def ledger_def groceries_def salary_def
      rent_def)

section \<open>Per-category expense totals\<close>

text \<open>The categories that the form offers are none of the inherited names.\<close>

lemma CATEGORIES_plain:
  "set CATEGORIES_expense \<inter> set inherited = {}" "set CATEGORIES_revenue \<inter> set inherited = {}"
  by (simp_all add: CATEGORIES_expense_def CATEGORIES_revenue_def inherited_def)

text \<open>
  On a list with two expenses for food, two revenues and the rent, the totals are the sums
  per expense category, largest first, and revenue has no entry.
\<close>

lemma categoryTotals_ledger:
  "categoryTotals [groceries, salary, rent, coffee, bonus] =
     [(''Rent'', Num 900), (''Food'', Num 50)]"
  by (simp add: categoryTotals_def add_to_category_def get_prop_def set_prop_def
      or_zero_plus_def inherited_def entries_def sort_by_def array_index_def by_amount_desc_def
      groceries_def salary_def rent_def coffee_def bonus_def)

text \<open>
  C3. The claim speaks of every transaction list, and the code means to do as it says; it
  misses the categories whose name the empty object inherits. For the one expense of 5 in
  the category 'constructor', \<^verbatim>\<open>map['constructor']\<close> reads the inherited function, which
  \<^verbatim>\<open>||\<close> keeps, and \<open>+\<close> makes a text of it: the category's total is a text, where the sum
  of its expense amounts is 5.
\<close>

theorem categoryTotals_inherited_name:
  "categoryTotals [constructor_fee] = [(''constructor'', Text)] \<and>
   sum_in_order (map amount
     (filter (\<lambda>t. ttype t = ''expense'' \<and> category t = ''constructor'') [constructor_fee])) = 5"
  by (simp add: categoryTotals_def add_to_category_def get_prop_def set_prop_def
      or_zero_plus_def inherited_def entries_def sort_by_def array_index_def
      sum_in_order_def constructor_fee_def)

section \<open>The monthly report\<close>

text \<open>
  On the same list the report has February before January, and January's sums are those
  of its two revenues and of its two expenses.
\<close>

lemma monthlyReport_ledger:
  "monthlyReport code_unit_compare [groceries, salary, rent, coffee, bonus] =
     Inr [(''2024-02'', \<lparr>revenue = 0, expense = 900, categories = [(''Rent'', Num 900)]\<rparr>),
          (''2024-01'', \<lparr>revenue = 3500, expense = 50, categories = [(''Food'', Num 50)]\<rparr>)]"
  by (simp add: monthlyReport_def month_step_def add_to_month_def add_to_category_def
      get_prop_def set_prop_def or_zero_plus_def inherited_def entries_def sort_by_def
      array_index_def code_unit_compare_def
      groceries_def salary_def rent_def coffee_def bonus_def)

text \<open>
  C4. The claim speaks of every transaction list with the two types, and the code means to
  do as it says; it misses the names that the empty object inherits. Inside a month the
  categories are summed in a plain object, so the expense of 5 in the category
  'constructor' leaves a text in the month's category map, where the sum is 5. A date that
  begins with 'valueOf' names an inherited function as its month: the month is never
  created, and the expense ends in the exception \<^verbatim>\<open>TypeError\<close> instead of a report.
\<close>

theorem monthlyReport_inherited_name:
  "monthlyReport code_unit_compare [constructor_fee] =
     Inr [(''2024-01'', \<lparr>revenue = 0, expense = 5, categories = [(''constructor'', Text)]\<rparr>)] \<and>
   ttype (constructor_fee\<lparr>date := ''valueOf''\<rparr>) = ''expense'' \<and>
   monthlyReport code_unit_compare [constructor_fee\<lparr>date := ''valueOf''\<rparr>] = Inl TypeError"
  by (simp add: monthlyReport_def month_step_def add_to_month_def add_to_category_def
      get_prop_def set_prop_def or_zero_plus_def inherited_def entries_def sort_by_def
      array_index_def constructor_fee_def)


end
